theory Spec2Isabelle
  imports Main
begin

section \<open>Python values, exceptions and the running program's state\<close>

text \<open>
  The values that flow through \<^verbatim>\<open>metta_python_patcher.py\<close>. Objects that Python compares
  by identity carry their identity: Python functions (\<open>PFunction\<close>), built-in functions
  (\<open>PBuiltin\<close>), bound methods (\<open>PMethod\<close>), property objects (\<open>PProperty\<close>), any other
  callable object such as a slot wrapper (\<open>PCallable\<close>) and any other, non-callable object
  (\<open>PObject\<close>). Classes and modules are named. Strings are sequences of 8-bit characters.
\<close>

datatype pyval =
    PNone
  | PBool bool
  | PInt int
  | PStr string
  | PTuple "pyval list"
  | PDict "(pyval \<times> pyval) list"
  | PModule string
  | PClass string
  | PFunction nat
  | PBuiltin nat
  | PMethod nat
  | PProperty nat
  | PCallable nat
  | PObject nat

datatype exn =
    IndexError
  | TypeError
  | ValueError
  | AttributeError
  | NameError
  | RecursionError
  | OtherError string

type_synonym 'a result = "exn + 'a"

text \<open>
  The process-wide state: the global \<^verbatim>\<open>suspend_trace\<close>, the \<^verbatim>\<open>__dict__\<close> of every
  instance (keyed by the instance and the attribute name), and a ghost log \<open>calls\<close>
  holding the identity of every callable invoked through \<open>py_call\<close>, in order.
\<close>

record world =
  suspend_trace :: bool
  inst_dict :: "((pyval \<times> string) \<times> pyval) list"
  calls :: "nat list"

text \<open>
  A Python callable: its identity and what running it on positional and keyword
  arguments does (it returns a value or raises, and may change the state).
\<close>

record callable =
  cid :: nat
  run :: "pyval list \<Rightarrow> (string \<times> pyval) list \<Rightarrow> world \<Rightarrow> pyval result \<times> world"

definition py_call ::
  "callable \<Rightarrow> pyval list \<Rightarrow> (string \<times> pyval) list \<Rightarrow> world \<Rightarrow> pyval result \<times> world" where
  "py_call f args kwargs w = run f args kwargs (w\<lparr>calls := calls w @ [cid f]\<rparr>)"

text \<open>
  What the patcher asks of the Python runtime and of the inspected object model, taken as
  given: \<open>str_of\<close> is \<^verbatim>\<open>str\<close> on values that are not strings; \<open>inspect_signature\<close> is
  \<^verbatim>\<open>inspect.signature\<close>, returning the parameter names in order or raising; \<open>doc_of\<close> is
  \<^verbatim>\<open>__doc__\<close>; \<open>dict_of\<close> is the \<^verbatim>\<open>__dict__\<close> of a class or module, whose entries are
  property objects, \<^verbatim>\<open>staticmethod\<close> objects, \<^verbatim>\<open>classmethod\<close> objects or plain values;
  \<open>getmro\<close> is \<^verbatim>\<open>inspect.getmro\<close>; \<open>name_of\<close> is \<^verbatim>\<open>__name__\<close> of a class or module;
  \<open>getmembers\<close> is \<^verbatim>\<open>inspect.getmembers\<close>; \<open>has_func\<close> tells whether an object has
  \<^verbatim>\<open>__func__\<close>; \<open>has_fset\<close> tells whether it has an \<^verbatim>\<open>fset\<close> that is not \<^verbatim>\<open>None\<close>;
  \<open>setattr_ok\<close> tells whether \<^verbatim>\<open>setattr\<close> on it succeeds. A \<open>host\<close> describes the
  object model at the moment of one call of the patcher.
\<close>

datatype descr =
    DProperty nat
  | DStaticMethod pyval
  | DClassMethod pyval
  | DPlain pyval

record host =
  str_of :: "pyval \<Rightarrow> string"
  inspect_signature :: "pyval \<Rightarrow> string list result"
  doc_of :: "pyval \<Rightarrow> string option"
  dict_of :: "pyval \<Rightarrow> (string \<times> descr) list"
  getmro :: "pyval \<Rightarrow> pyval list"
  name_of :: "pyval \<Rightarrow> string"
  getmembers :: "pyval \<Rightarrow> (string \<times> pyval) list"
  has_func :: "pyval \<Rightarrow> bool"
  has_fset :: "pyval \<Rightarrow> bool"
  setattr_ok :: "pyval \<Rightarrow> bool"

text \<open>\<^verbatim>\<open>str(v)\<close>: a string is its own rendering, every other value is rendered by the runtime.\<close>

definition py_str :: "host \<Rightarrow> pyval \<Rightarrow> string" where
  "py_str h v = (case v of PStr s \<Rightarrow> s | _ \<Rightarrow> str_of h v)"

text \<open>\<^verbatim>\<open>sub in s\<close> on strings.\<close>

fun py_in_str :: "string \<Rightarrow> string \<Rightarrow> bool" where
  "py_in_str sub [] = (sub = [])"
| "py_in_str sub (c # cs) = (take (length sub) (c # cs) = sub \<or> py_in_str sub cs)"

definition ismodule :: "pyval \<Rightarrow> bool" where
  "ismodule v = (case v of PModule _ \<Rightarrow> True | _ \<Rightarrow> False)"

definition isclass :: "pyval \<Rightarrow> bool" where
  "isclass v = (case v of PClass _ \<Rightarrow> True | _ \<Rightarrow> False)"

definition isfunction :: "pyval \<Rightarrow> bool" where
  "isfunction v = (case v of PFunction _ \<Rightarrow> True | _ \<Rightarrow> False)"

definition ismethod :: "pyval \<Rightarrow> bool" where
  "ismethod v = (case v of PMethod _ \<Rightarrow> True | _ \<Rightarrow> False)"

definition isbuiltin :: "pyval \<Rightarrow> bool" where
  "isbuiltin v = (case v of PBuiltin _ \<Rightarrow> True | _ \<Rightarrow> False)"

definition py_callable :: "pyval \<Rightarrow> bool" where
  "py_callable v = (case v of
       PClass _ \<Rightarrow> True | PFunction _ \<Rightarrow> True | PBuiltin _ \<Rightarrow> True
     | PMethod _ \<Rightarrow> True | PCallable _ \<Rightarrow> True | _ \<Rightarrow> False)"

definition isdict :: "pyval \<Rightarrow> bool" where
  "isdict v = (case v of PDict _ \<Rightarrow> True | _ \<Rightarrow> False)"

text \<open>Truthiness (\<^verbatim>\<open>bool(v)\<close>); objects without \<^verbatim>\<open>__bool__\<close>/\<^verbatim>\<open>__len__\<close> are true.\<close>

definition py_truthy :: "pyval \<Rightarrow> bool" where
  "py_truthy v = (case v of
       PNone \<Rightarrow> False | PBool b \<Rightarrow> b | PInt n \<Rightarrow> n \<noteq> 0 | PStr s \<Rightarrow> s \<noteq> []
     | PTuple xs \<Rightarrow> xs \<noteq> [] | PDict kvs \<Rightarrow> kvs \<noteq> [] | _ \<Rightarrow> True)"

text \<open>\<^verbatim>\<open>d.get(key, default)\<close> for a string key on the entries of a dict.\<close>

definition dict_get :: "(pyval \<times> pyval) list \<Rightarrow> string \<Rightarrow> pyval \<Rightarrow> pyval" where
  "dict_get kvs k d = (case map_of kvs (PStr k) of None \<Rightarrow> d | Some v \<Rightarrow> v)"

text \<open>\<^verbatim>\<open>isinstance(result, dict) and result.get(flag, False)\<close>.\<close>

definition dict_flag :: "pyval \<Rightarrow> string \<Rightarrow> bool" where
  "dict_flag result flag =
     (case result of PDict kvs \<Rightarrow> py_truthy (dict_get kvs flag (PBool False)) | _ \<Rightarrow> False)"

text \<open>\<^verbatim>\<open>result.get(key)\<close> on a value already known to be a dict.\<close>

definition dict_entry :: "pyval \<Rightarrow> string \<Rightarrow> pyval" where
  "dict_entry result k = (case result of PDict kvs \<Rightarrow> dict_get kvs k PNone | _ \<Rightarrow> PNone)"

section \<open>Observer\<close>

record observer =
  observers :: "string \<rightharpoonup> callable list"

definition Observer_init :: observer where
  "Observer_init = \<lparr>observers = Map.empty\<rparr>"

text \<open>The f-string \<^verbatim>\<open>f"{level}_{event_type}"\<close>.\<close>

definition event_key :: "string \<Rightarrow> string \<Rightarrow> string" where
  "event_key level event_type = level @ ''_'' @ event_type"

definition registered :: "observer \<Rightarrow> string \<Rightarrow> callable list" where
  "registered obs key = (case observers obs key of None \<Rightarrow> [] | Some cbs \<Rightarrow> cbs)"

text \<open>\<^verbatim>\<open>Observer.subscribe(event_type, callback, level)\<close>.\<close>

definition subscribe :: "observer \<Rightarrow> string \<Rightarrow> callable \<Rightarrow> string \<Rightarrow> observer" where
  "subscribe obs event_type callback level =
     (let key = event_key level event_type;
          obs1 = (if observers obs key = None
                  then obs\<lparr>observers := (observers obs)(key \<mapsto> [])\<rparr> else obs)
      in obs1\<lparr>observers := (observers obs1)(key \<mapsto> registered obs1 key @ [callback])\<rparr>)"

definition subscribe_all :: "observer \<Rightarrow> string \<Rightarrow> string \<Rightarrow> callable list \<Rightarrow> observer" where
  "subscribe_all obs event_type level cbs =
     foldl (\<lambda>ob cb. subscribe ob event_type cb level) obs cbs"

text \<open>
  The loop \<^verbatim>\<open>for callback in self.observers[event_key]\<close> of \<^verbatim>\<open>notify\<close>: \<open>Some r\<close> is
  the early \<^verbatim>\<open>return result\<close> after \<^verbatim>\<open>callback(*args)\<close>, \<open>None\<close> is the loop running to its end.
\<close>

fun run_callbacks :: "callable list \<Rightarrow> pyval list \<Rightarrow> world \<Rightarrow> pyval option result \<times> world" where
  "run_callbacks [] args w = (Inr None, w)"
| "run_callbacks (callback # rest) args w =
     (case py_call callback args [] w of
        (Inl e, w') \<Rightarrow> (Inl e, w')
      | (Inr result, w') \<Rightarrow>
          if result \<noteq> PNone then (Inr (Some result), w') else run_callbacks rest args w')"

definition kwargs_get :: "(string \<times> pyval) list \<Rightarrow> string \<Rightarrow> pyval \<Rightarrow> pyval" where
  "kwargs_get kwargs k d = (case map_of kwargs k of None \<Rightarrow> d | Some v \<Rightarrow> v)"

definition skip_substrings :: "string list" where
  "skip_substrings = [''tokenizer'', ''metta_err_str'', ''_free'']"

text \<open>The test \<^verbatim>\<open>len(args_list) > 1\<close> and some substring is in \<^verbatim>\<open>str(args_list[1])\<close>.\<close>

definition skipped_name :: "host \<Rightarrow> pyval list \<Rightarrow> bool" where
  "skipped_name h args_list =
     (length args_list > 1 \<and>
      list_ex (\<lambda>substring. py_in_str substring (py_str h (args_list ! 1))) skip_substrings)"

text \<open>The lookup \<^verbatim>\<open>if event_key in self.observers\<close> followed by the loop and the final return.\<close>

definition dispatch ::
  "observer \<Rightarrow> string \<Rightarrow> pyval list \<Rightarrow> pyval \<Rightarrow> world \<Rightarrow> pyval result \<times> world" where
  "dispatch obs key args default_value w =
     (case observers obs key of
        None \<Rightarrow> (Inr default_value, w)
      | Some cbs \<Rightarrow>
          (case run_callbacks cbs args w of
             (Inl e, w') \<Rightarrow> (Inl e, w')
           | (Inr (Some result), w') \<Rightarrow> (Inr result, w')
           | (Inr None, w') \<Rightarrow> (Inr default_value, w')))"

text \<open>
  \<^verbatim>\<open>Observer.notify(func, event_type, *args, **kwargs)\<close>. The bare \<^verbatim>\<open>return\<close>
  statements return \<^verbatim>\<open>None\<close>; \<^verbatim>\<open>args_list[0]\<close> on an empty list raises IndexError.
  The event type is a string, as in every call of the source; the level is whatever the
  caller passed under \<^verbatim>\<open>level\<close>, rendered into the key by the f-string.
\<close>

definition notify ::
  "host \<Rightarrow> observer \<Rightarrow> pyval \<Rightarrow> string \<Rightarrow> pyval list \<Rightarrow> (string \<times> pyval) list \<Rightarrow> world
     \<Rightarrow> pyval result \<times> world" where
  "notify h obs func event_type args kwargs w =
     (if suspend_trace w then (Inr PNone, w)
      else
        let level = kwargs_get kwargs ''level'' (PStr ''instance'');
            kwargs1 = filter (\<lambda>(k, v). k \<noteq> ''level'') kwargs
        in if skipped_name h args then (Inr PNone, w)
           else (case args of
               [] \<Rightarrow> (Inl IndexError, w)
             | a0 # rest \<Rightarrow>
                 dispatch obs (event_key (py_str h level) event_type)
                   ((if ismodule a0 then PNone else a0) # rest)
                   (kwargs_get kwargs1 ''default_value'' PNone) w))"

text \<open>
  Invoking every callback of a list in order, each one returning \<^verbatim>\<open>None\<close>
  without raising: the state reached, or \<open>None\<close> if some callback raises or
  returns a value.
\<close>

fun quiet_run :: "callable list \<Rightarrow> pyval list \<Rightarrow> world \<Rightarrow> world option" where
  "quiet_run [] args w = Some w"
| "quiet_run (callback # rest) args w =
     (case py_call callback args [] w of
        (Inl e, w') \<Rightarrow> None
      | (Inr result, w') \<Rightarrow> if result = PNone then quiet_run rest args w' else None)"

section \<open>Instance getters and setters\<close>

text \<open>
  The \<^verbatim>\<open>original_property\<close> a getter or setter closes over: a property object (its
  identity, its \<^verbatim>\<open>fget\<close> and its \<^verbatim>\<open>fset\<close>, either of which may be \<^verbatim>\<open>None\<close>), or, for
  an instance variable, the plain value captured at patch time.
\<close>

datatype original_property =
    OrigProperty nat "callable option" "callable option"
  | OrigValue pyval

text \<open>\<^verbatim>\<open>getattr(self, name, default)\<close>, read from the instance's \<^verbatim>\<open>__dict__\<close>.\<close>

definition getattr_default :: "world \<Rightarrow> pyval \<Rightarrow> string \<Rightarrow> pyval \<Rightarrow> pyval" where
  "getattr_default w self name d =
     (case map_of (inst_dict w) (self, name) of None \<Rightarrow> d | Some v \<Rightarrow> v)"

fun dict_set :: "'k \<Rightarrow> 'v \<Rightarrow> ('k \<times> 'v) list \<Rightarrow> ('k \<times> 'v) list" where
  "dict_set k v [] = [(k, v)]"
| "dict_set k v ((k', v') # kvs) =
     (if k' = k then (k, v) # kvs else (k', v') # dict_set k v kvs)"

text \<open>\<^verbatim>\<open>self.__dict__[name] = value\<close>.\<close>

definition set_dict :: "world \<Rightarrow> pyval \<Rightarrow> string \<Rightarrow> pyval \<Rightarrow> world" where
  "set_dict w self name v = w\<lparr>inst_dict := dict_set (self, name) v (inst_dict w)\<rparr>"

text \<open>The value passed to \<^verbatim>\<open>notify\<close> as \<^verbatim>\<open>func\<close>; \<^verbatim>\<open>notify\<close> never looks at it.\<close>

definition ref_of :: "callable \<Rightarrow> pyval" where
  "ref_of f = PFunction (cid f)"

definition property_ref :: "original_property \<Rightarrow> pyval" where
  "property_ref p = (case p of OrigProperty i fget fset \<Rightarrow> PProperty i | OrigValue v \<Rightarrow> v)"

text \<open>
  The raw read of \<^verbatim>\<open>instance_getter\<close>: \<^verbatim>\<open>original_property.fget(self)\<close> for a property
  (calling \<^verbatim>\<open>None\<close> raises TypeError), the \<^verbatim>\<open>__original_<name>\<close> attribute otherwise.
\<close>

definition raw_read ::
  "original_property \<Rightarrow> string \<Rightarrow> pyval \<Rightarrow> world \<Rightarrow> pyval result \<times> world" where
  "raw_read original_property property_name self w =
     (case original_property of
        OrigProperty i fget fset \<Rightarrow>
          (case fget of None \<Rightarrow> (Inl TypeError, w) | Some g \<Rightarrow> py_call g [self] [] w)
      | OrigValue v \<Rightarrow> (Inr (getattr_default w self (''__original_'' @ property_name) PNone), w))"

text \<open>
  \<^verbatim>\<open>instance_getter(self)\<close> as built by \<^verbatim>\<open>create_instance_getter\<close>. The \<^verbatim>\<open>except\<close>
  clause clears the flag and re-raises.
\<close>

definition instance_getter ::
  "host \<Rightarrow> observer \<Rightarrow> original_property \<Rightarrow> string \<Rightarrow> pyval \<Rightarrow> string \<Rightarrow> pyval \<Rightarrow> world
     \<Rightarrow> pyval result \<times> world" where
  "instance_getter h obs original_property property_name target level self w =
     (if suspend_trace w
      then (Inr (getattr_default w self (''__original_'' @ property_name) PNone), w)
      else
        (case raw_read original_property property_name self (w\<lparr>suspend_trace := True\<rparr>) of
           (Inl e, w2) \<Rightarrow> (Inl e, w2\<lparr>suspend_trace := False\<rparr>)
         | (Inr current_value, w2) \<Rightarrow>
             (case notify h obs (property_ref original_property) ''get''
                     [target, PStr property_name, current_value] [(''level'', PStr level)]
                     (w2\<lparr>suspend_trace := False\<rparr>) of
                (Inl e, w4) \<Rightarrow> (Inl e, w4\<lparr>suspend_trace := False\<rparr>)
              | (Inr result, w4) \<Rightarrow>
                  if dict_flag result ''do_not_really_get''
                  then (Inr (dict_entry result ''return_value''), w4)
                  else (Inr current_value, w4))))"

text \<open>
  The write of \<^verbatim>\<open>instance_setter\<close> once the veto test has passed: the original
  \<^verbatim>\<open>fset\<close>, with the fallback on AttributeError, or the assignment to the
  \<^verbatim>\<open>'instance_var'\<close> entry of \<^verbatim>\<open>__dict__\<close>.
\<close>

definition raw_write ::
  "original_property \<Rightarrow> pyval \<Rightarrow> pyval \<Rightarrow> world \<Rightarrow> pyval result \<times> world" where
  "raw_write original_property self new_value w =
     (case original_property of
        OrigProperty i fget fset \<Rightarrow>
          (case fset of
             None \<Rightarrow> (Inr PNone, set_dict w self ''instance_var'' new_value)
           | Some s \<Rightarrow>
               (case py_call s [self, new_value] [] w of
                  (Inl e, w') \<Rightarrow>
                    if e = AttributeError
                    then (Inr PNone, set_dict w' self ''instance_var'' new_value)
                    else (Inl e, w')
                | (Inr r, w') \<Rightarrow> (Inr PNone, w')))
      | OrigValue v \<Rightarrow> (Inr PNone, set_dict w self ''instance_var'' new_value))"

text \<open>
  \<^verbatim>\<open>instance_setter(self, new_value)\<close> as built by \<^verbatim>\<open>create_instance_setter\<close>:
  \<^verbatim>\<open>suspend_trace = True\<close> is executed before \<^verbatim>\<open>observer.notify\<close> is called.
\<close>

definition instance_setter ::
  "host \<Rightarrow> observer \<Rightarrow> original_property \<Rightarrow> string \<Rightarrow> pyval \<Rightarrow> string \<Rightarrow> pyval \<Rightarrow> pyval
     \<Rightarrow> world \<Rightarrow> pyval result \<times> world" where
  "instance_setter h obs original_property property_name target level self new_value w =
     (if suspend_trace w
      then (Inr PNone, set_dict w self property_name new_value)
      else
        (case notify h obs (property_ref original_property) ''set''
                [target, PStr property_name, new_value] [(''level'', PStr level)]
                (w\<lparr>suspend_trace := True\<rparr>) of
           (Inl e, w2) \<Rightarrow> (Inl e, w2\<lparr>suspend_trace := False\<rparr>)
         | (Inr result, w2) \<Rightarrow>
             if dict_flag result ''do_not_really_set''
             then (Inr PNone, w2\<lparr>suspend_trace := False\<rparr>)
             else
               (case raw_write original_property self new_value w2 of
                  (Inl e, w3) \<Rightarrow> (Inl e, w3\<lparr>suspend_trace := False\<rparr>)
                | (Inr r, w3) \<Rightarrow> (Inr PNone, w3\<lparr>suspend_trace := False\<rparr>))))"

text \<open>
  The property that \<^verbatim>\<open>patch_instance_property\<close> installs: it always has the getter, and
  has the setter only when the original has an \<^verbatim>\<open>fset\<close> that is not \<^verbatim>\<open>None\<close>. Reading
  the attribute on an instance runs the getter; assigning to it runs the setter, or raises
  AttributeError when the property has none.
\<close>

definition has_setter :: "original_property \<Rightarrow> bool" where
  "has_setter p = (case p of OrigProperty i fget (Some s) \<Rightarrow> True | _ \<Rightarrow> False)"

definition patched_read ::
  "host \<Rightarrow> observer \<Rightarrow> original_property \<Rightarrow> string \<Rightarrow> pyval \<Rightarrow> string \<Rightarrow> pyval \<Rightarrow> world
     \<Rightarrow> pyval result \<times> world" where
  "patched_read h obs original_property property_name target level self w =
     instance_getter h obs original_property property_name target level self w"

definition patched_write ::
  "host \<Rightarrow> observer \<Rightarrow> original_property \<Rightarrow> string \<Rightarrow> pyval \<Rightarrow> string \<Rightarrow> pyval \<Rightarrow> pyval
     \<Rightarrow> world \<Rightarrow> pyval result \<times> world" where
  "patched_write h obs original_property property_name target level self new_value w =
     (if has_setter original_property
      then instance_setter h obs original_property property_name target level self new_value w
      else (Inl AttributeError, w))"

section \<open>Call wrappers\<close>

text \<open>\<^verbatim>\<open>*modified_args\<close>: the elements of a tuple, the characters of a string, the keys of a dict.\<close>

definition star_args :: "pyval \<Rightarrow> pyval list result" where
  "star_args v = (case v of
       PTuple xs \<Rightarrow> Inr xs
     | PStr s \<Rightarrow> Inr (map (\<lambda>c. PStr [c]) s)
     | PDict kvs \<Rightarrow> Inr (map fst kvs)
     | _ \<Rightarrow> Inl TypeError)"

fun str_keys :: "(pyval \<times> pyval) list \<Rightarrow> (string \<times> pyval) list result" where
  "str_keys [] = Inr []"
| "str_keys ((k, v) # kvs) =
     (case k of
        PStr s \<Rightarrow> (case str_keys kvs of Inl e \<Rightarrow> Inl e | Inr r \<Rightarrow> Inr ((s, v) # r))
      | _ \<Rightarrow> Inl TypeError)"

text \<open>\<^verbatim>\<open>**modified_kwargs\<close>: a dict whose keys are strings.\<close>

definition star_kwargs :: "pyval \<Rightarrow> (string \<times> pyval) list result" where
  "star_kwargs v = (case v of PDict kvs \<Rightarrow> str_keys kvs | _ \<Rightarrow> Inl TypeError)"

text \<open>
  The \<^verbatim>\<open>elif isinstance(result, tuple)\<close> / \<^verbatim>\<open>else\<close> branches: a tuple must unpack into
  exactly two values (ValueError otherwise), which replace the call's arguments.
\<close>

definition modified_call ::
  "pyval \<Rightarrow> pyval list \<Rightarrow> (string \<times> pyval) list
     \<Rightarrow> (pyval list \<times> (string \<times> pyval) list) result" where
  "modified_call result args kwargs =
     (case result of
        PTuple xs \<Rightarrow>
          (case xs of
             [modified_args, modified_kwargs] \<Rightarrow>
               (case star_args modified_args of
                  Inl e \<Rightarrow> Inl e
                | Inr margs \<Rightarrow>
                    (case star_kwargs modified_kwargs of
                       Inl e \<Rightarrow> Inl e
                     | Inr mkwargs \<Rightarrow> Inr (margs, mkwargs)))
           | _ \<Rightarrow> Inl ValueError)
      | _ \<Rightarrow> Inr (args, kwargs))"

definition kwargs_dict :: "(string \<times> pyval) list \<Rightarrow> pyval" where
  "kwargs_dict kwargs = PDict (map (\<lambda>(k, v). (PStr k, v)) kwargs)"

text \<open>
  The body shared, word for word, by \<^verbatim>\<open>patched_method\<close>, \<^verbatim>\<open>patched_class_method\<close>,
  \<^verbatim>\<open>patched_static_method\<close> and \<^verbatim>\<open>patched_function\<close>; they differ in the level they
  notify under and in the implicit first argument (\<open>implicit\<close>) handed to the original.
\<close>

definition wrapped_call ::
  "host \<Rightarrow> observer \<Rightarrow> string \<Rightarrow> callable \<Rightarrow> pyval \<Rightarrow> string \<Rightarrow> pyval list \<Rightarrow> pyval list
     \<Rightarrow> (string \<times> pyval) list \<Rightarrow> world \<Rightarrow> pyval result \<times> world" where
  "wrapped_call h obs level original owner name implicit args kwargs w =
     (case notify h obs (ref_of original) ''before_call''
             [owner, PStr name, PTuple args, kwargs_dict kwargs] [(''level'', PStr level)] w of
        (Inl e, w1) \<Rightarrow> (Inl e, w1)
      | (Inr result, w1) \<Rightarrow>
          if dict_flag result ''do_not_really_call''
          then (Inr (dict_entry result ''return_value''), w1)
          else
            (case modified_call result args kwargs of
               Inl e \<Rightarrow> (Inl e, w1)
             | Inr (modified_args, modified_kwargs) \<Rightarrow>
                 (case py_call original (implicit @ modified_args) modified_kwargs w1 of
                    (Inl e, w2) \<Rightarrow> (Inl e, w2)
                  | (Inr res, w2) \<Rightarrow>
                      (case notify h obs (ref_of original) ''after_call''
                              [owner, PStr name, res] [(''level'', PStr level)] w2 of
                         (Inl e, w3) \<Rightarrow> (Inl e, w3)
                       | (Inr modified_result, w3) \<Rightarrow>
                           (Inr (if modified_result \<noteq> PNone then modified_result else res),
                            w3)))))"

text \<open>\<^verbatim>\<open>patched_method(instance_self, *args, **kwargs)\<close> of \<^verbatim>\<open>patch_instance_method\<close>.\<close>

definition patched_method ::
  "host \<Rightarrow> observer \<Rightarrow> callable \<Rightarrow> pyval \<Rightarrow> string \<Rightarrow> pyval \<Rightarrow> pyval list
     \<Rightarrow> (string \<times> pyval) list \<Rightarrow> world \<Rightarrow> pyval result \<times> world" where
  "patched_method h obs original_method target_class method_name instance_self args kwargs w =
     wrapped_call h obs ''instance'' original_method target_class method_name [instance_self]
       args kwargs w"

text \<open>\<^verbatim>\<open>patched_class_method(cls, *args, **kwargs)\<close> of \<^verbatim>\<open>patch_class_method\<close>.\<close>

definition patched_class_method ::
  "host \<Rightarrow> observer \<Rightarrow> callable \<Rightarrow> pyval \<Rightarrow> string \<Rightarrow> pyval \<Rightarrow> pyval list
     \<Rightarrow> (string \<times> pyval) list \<Rightarrow> world \<Rightarrow> pyval result \<times> world" where
  "patched_class_method h obs original_method target_class method_name cls args kwargs w =
     wrapped_call h obs ''class'' original_method target_class method_name [cls] args kwargs w"

text \<open>\<^verbatim>\<open>patched_static_method(*args, **kwargs)\<close> of \<^verbatim>\<open>patch_static_method\<close>.\<close>

definition patched_static_method ::
  "host \<Rightarrow> observer \<Rightarrow> callable \<Rightarrow> pyval \<Rightarrow> string \<Rightarrow> pyval list
     \<Rightarrow> (string \<times> pyval) list \<Rightarrow> world \<Rightarrow> pyval result \<times> world" where
  "patched_static_method h obs original_method target_class method_name args kwargs w =
     wrapped_call h obs ''class'' original_method target_class method_name [] args kwargs w"

text \<open>\<^verbatim>\<open>patched_function(*args, **kwargs)\<close> of \<^verbatim>\<open>patch_module_function\<close>.\<close>

definition patched_function ::
  "host \<Rightarrow> observer \<Rightarrow> callable \<Rightarrow> pyval \<Rightarrow> string \<Rightarrow> pyval list
     \<Rightarrow> (string \<times> pyval) list \<Rightarrow> world \<Rightarrow> pyval result \<times> world" where
  "patched_function h obs original_function module function_name args kwargs w =
     wrapped_call h obs ''module'' original_function module function_name [] args kwargs w"

text \<open>
  The payload a call wrapper hands to \<^verbatim>\<open>notify\<close> for \<^verbatim>\<open>before_call\<close>, as the callbacks
  receive it (a module owner replaced by \<^verbatim>\<open>None\<close>).
\<close>

definition before_args ::
  "pyval \<Rightarrow> string \<Rightarrow> pyval list \<Rightarrow> (string \<times> pyval) list \<Rightarrow> pyval list" where
  "before_args owner name args kwargs =
     [if ismodule owner then PNone else owner, PStr name, PTuple args, kwargs_dict kwargs]"

section \<open>Signatures\<close>

text \<open>
  What \<^verbatim>\<open>signature\<close> returns: the \<^verbatim>\<open>inspect.Signature\<close> object (its parameter names,
  in order) or one of the strings it falls back to.
\<close>

datatype sig_value = Signature "string list" | SigText string

text \<open>The line boundaries of \<^verbatim>\<open>str.splitlines\<close> and the characters \<^verbatim>\<open>str.strip\<close> removes.\<close>

definition is_linebreak :: "char \<Rightarrow> bool" where
  "is_linebreak c = ((of_char c :: nat) \<in> {10, 11, 12, 13, 28, 29, 30, 133})"

definition py_isspace :: "char \<Rightarrow> bool" where
  "py_isspace c = ((of_char c :: nat) \<in> {9, 10, 11, 12, 13, 28, 29, 30, 31, 32, 133, 160})"

text \<open>\<^verbatim>\<open>doc.splitlines()[0]\<close> for a non-empty \<^verbatim>\<open>doc\<close>.\<close>

definition first_line :: "string \<Rightarrow> string" where
  "first_line doc = takeWhile (\<lambda>c. \<not> is_linebreak c) doc"

definition strip :: "string \<Rightarrow> string" where
  "strip s = rev (dropWhile py_isspace (rev (dropWhile py_isspace s)))"

text \<open>
  \<^verbatim>\<open>isinstance(obj, types.BuiltinFunctionType) and hasattr(obj, '__doc__')\<close>; every
  built-in function object has the attribute.
\<close>

definition is_pybind11_function :: "pyval \<Rightarrow> bool" where
  "is_pybind11_function obj = isbuiltin obj"

definition get_pybind11_signature :: "host \<Rightarrow> pyval \<Rightarrow> string" where
  "get_pybind11_signature h obj =
     (case doc_of h obj of
        None \<Rightarrow> ''(pybind11 function with unknown signature)''
      | Some doc \<Rightarrow>
          if doc \<noteq> [] \<and> CHR ''('' \<in> set (first_line doc) \<and> CHR '')'' \<in> set (first_line doc)
          then strip (first_line doc)
          else ''(pybind11 function with unknown signature)'')"

text \<open>
  \<^verbatim>\<open>signature(obj)\<close>: \<^verbatim>\<open>inspect.signature\<close> inside \<^verbatim>\<open>try\<close>, a handler for
  ValueError and TypeError, and a handler for every other exception.
\<close>

definition signature :: "host \<Rightarrow> pyval \<Rightarrow> sig_value result" where
  "signature h obj =
     (case inspect_signature h obj of
        Inr params \<Rightarrow> Inr (Signature params)
      | Inl e \<Rightarrow>
          if e = ValueError \<or> e = TypeError
          then (if is_pybind11_function obj
                then Inr (SigText (get_pybind11_signature h obj))
                else Inr (SigText ''(builtin method)''))
          else Inr (SigText ''(unknown)''))"

section \<open>Classification of members\<close>

datatype MemberType =
    VARIABLE | PROPERTY | METHOD | STATIC_METHOD | CLASS_METHOD | FUNCTION
  | MODULE_TYPE | CLASS_TYPE | SPECIAL_METHOD | SPECIAL_VARIABLE

datatype MemberLevel = INSTANCE | CLASS | MODULE

datatype Implemented = LOCAL | INHERITED | DEFAULT

definition startswith :: "string \<Rightarrow> string \<Rightarrow> bool" where
  "startswith s p = (take (length p) s = p)"

definition endswith :: "string \<Rightarrow> string \<Rightarrow> bool" where
  "endswith s p = (length p \<le> length s \<and> drop (length s - length p) s = p)"

text \<open>\<^verbatim>\<open>name.startswith('__') and name.endswith('__')\<close>.\<close>

definition dunder :: "string \<Rightarrow> bool" where
  "dunder name = (startswith name ''__'' \<and> endswith name ''__'')"

text \<open>
  \<^verbatim>\<open>uses_self(member)\<close>: only ValueError and TypeError of \<^verbatim>\<open>inspect.signature\<close> are
  caught. The callable is looked at through \<open>inspect_signature\<close> alone; its code is not
  part of what this function is given.
\<close>

definition uses_self :: "host \<Rightarrow> pyval \<Rightarrow> bool result" where
  "uses_self h member =
     (if \<not> py_callable member then Inr False
      else (case inspect_signature h member of
              Inr params \<Rightarrow> Inr (''self'' \<in> set params)
            | Inl e \<Rightarrow> if e = ValueError \<or> e = TypeError then Inr False else Inl e))"

definition in_dict :: "host \<Rightarrow> string \<Rightarrow> pyval \<Rightarrow> bool" where
  "in_dict h name obj = (map_of (dict_of h obj) name \<noteq> None)"

definition implemented_in :: "host \<Rightarrow> string \<Rightarrow> pyval \<Rightarrow> string option" where
  "implemented_in h member_name obj =
     (if isclass obj then
        (if in_dict h member_name obj then Some (name_of h obj)
         else (case find (in_dict h member_name) (tl (getmro h obj)) of
                 Some base \<Rightarrow> Some (name_of h base)
               | None \<Rightarrow> None))
      else if ismodule obj then
        (if in_dict h member_name obj then Some (name_of h obj) else Some ''imported'')
      else None)"

definition get_member_descriptor :: "host \<Rightarrow> pyval \<Rightarrow> string \<Rightarrow> descr option" where
  "get_member_descriptor h obj name =
     (if isclass obj then
        (if in_dict h name obj then map_of (dict_of h obj) name
         else (case find (in_dict h name) (tl (getmro h obj)) of
                 Some base \<Rightarrow> map_of (dict_of h base) name
               | None \<Rightarrow> None))
      else if ismodule obj then map_of (dict_of h obj) name
      else None)"

definition is_property :: "descr option \<Rightarrow> bool" where
  "is_property d = (case d of Some (DProperty p) \<Rightarrow> True | _ \<Rightarrow> False)"

definition is_staticmethod :: "descr option \<Rightarrow> bool" where
  "is_staticmethod d = (case d of Some (DStaticMethod f) \<Rightarrow> True | _ \<Rightarrow> False)"

definition is_classmethod :: "descr option \<Rightarrow> bool" where
  "is_classmethod d = (case d of Some (DClassMethod f) \<Rightarrow> True | _ \<Rightarrow> False)"

definition classify_member_type :: "host \<Rightarrow> pyval \<Rightarrow> string \<Rightarrow> pyval \<Rightarrow> MemberType" where
  "classify_member_type h obj name member =
     (let descriptor = get_member_descriptor h obj name in
      if isclass member then CLASS_TYPE
      else if ismodule member then MODULE_TYPE
      else if is_property descriptor then PROPERTY
      else if is_staticmethod descriptor then STATIC_METHOD
      else if is_classmethod descriptor then CLASS_METHOD
      else if isfunction member then (if dunder name then SPECIAL_METHOD else FUNCTION)
      else if ismethod member then METHOD
      else if \<not> py_callable member then (if dunder name then SPECIAL_VARIABLE else VARIABLE)
      else (if dunder name then SPECIAL_METHOD else METHOD))"

definition classify_member_level ::
  "host \<Rightarrow> pyval \<Rightarrow> string \<Rightarrow> pyval \<Rightarrow> string option \<Rightarrow> bool \<Rightarrow> MemberLevel" where
  "classify_member_level h obj name member implemented_from uses_self_flag =
     (let descriptor = get_member_descriptor h obj name in
      if isclass obj then
        (if is_property descriptor then INSTANCE
         else if is_staticmethod descriptor then CLASS
         else if is_classmethod descriptor then CLASS
         else if \<not> py_callable member then CLASS
         else if uses_self_flag then INSTANCE
         else if implemented_from = Some ''object'' then MODULE
         else CLASS)
      else if ismodule obj then MODULE
      else CLASS)"

definition classify_implementation :: "host \<Rightarrow> pyval \<Rightarrow> string option \<Rightarrow> Implemented" where
  "classify_implementation h obj implemented_from =
     (if implemented_from = Some (name_of h obj) then LOCAL
      else if implemented_from = Some ''object'' then DEFAULT
      else if implemented_from \<noteq> None then INHERITED
      else LOCAL)"

section \<open>Inspector\<close>

text \<open>
  The \<^verbatim>\<open>member_info\<close> dictionaries. \<^verbatim>\<open>get_members\<close> fills every key; the dictionaries
  built by \<^verbatim>\<open>patch_one_instance_variable\<close> and \<^verbatim>\<open>create_member_info_and_patch_member\<close>
  have no \<^verbatim>\<open>'implemented'\<close> and \<^verbatim>\<open>'implemented_from'\<close> keys (\<open>None\<close> here).
\<close>

record member_info =
  mi_name :: string
  mi_member :: pyval
  mi_type :: MemberType
  mi_level :: MemberLevel
  mi_implemented :: "Implemented option"
  mi_implemented_from :: "string option"
  mi_class_name :: string
  mi_class_object :: pyval

text \<open>
  What \<^verbatim>\<open>setattr(target, name, value)\<close> of the patcher stores: the shadow copy kept by
  \<^verbatim>\<open>patch_static_property\<close>, or a wrapper, tagged with the member it was built for.
\<close>

datatype wrapper_kind =
    InstanceMethodWrapper
  | ClassMethodWrapper
  | StaticMethodWrapper
  | InstancePropertyWrapper "descr option" bool
  | StaticPropertyWrapper

datatype installed = ShadowValue pyval | Wrapper wrapper_kind pyval

text \<open>
  The fields of \<^verbatim>\<open>Inspector\<close>, and \<open>setattr_log\<close>: every \<^verbatim>\<open>setattr\<close> the monkey patcher
  has performed on a class, in order.
\<close>

record inspector =
  printed_classes :: "string set"
  printed_members :: "(string \<times> string) set"
  class_hierarchy :: "string \<rightharpoonup> pyval list"
  captured_members :: "string \<rightharpoonup> member_info list"
  patched_members :: "(pyval \<times> member_info) list"
  setattr_log :: "(pyval \<times> string \<times> installed) list"



text \<open>The dictionary \<^verbatim>\<open>get_members\<close> builds for one member; \<open>self_usage\<close> is the result of \<open>uses_self\<close>.\<close>

definition make_member_info :: "host \<Rightarrow> pyval \<Rightarrow> string \<Rightarrow> pyval \<Rightarrow> bool \<Rightarrow> member_info" where
  "make_member_info h obj name member self_usage =
     (let implemented_from = implemented_in h name obj in
      \<lparr>mi_name = name,
       mi_member = member,
       mi_type = classify_member_type h obj name member,
       mi_level = classify_member_level h obj name member implemented_from self_usage,
       mi_implemented = Some (classify_implementation h obj implemented_from),
       mi_implemented_from = implemented_from,
       mi_class_name = name_of h obj,
       mi_class_object = obj\<rparr>)"





section \<open>Patching a member\<close>


fun dict_key :: "pyval \<Rightarrow> pyval" where
  "dict_key (PBool b) = PInt (if b then 1 else 0)"
| "dict_key (PTuple xs) = PTuple (map dict_key xs)"
| "dict_key v = v"













text \<open>The members for which wrappers have been installed, as dictionary keys, in order.\<close>

definition wrapped_keys :: "inspector \<Rightarrow> pyval list" where
  "wrapped_keys insp =
     concat (map (\<lambda>(target, name, v). case v of
                     Wrapper k m \<Rightarrow> [dict_key m]
                   | ShadowValue x \<Rightarrow> [])
               (setattr_log insp))"




section \<open>Concrete objects used to exercise the model\<close>

definition cb_const :: "nat \<Rightarrow> pyval \<Rightarrow> callable" where
  "cb_const i v = \<lparr>cid = i, run = (\<lambda>args kwargs w. (Inr v, w))\<rparr>"

definition world0 :: world where
  "world0 = \<lparr>suspend_trace = False, inst_dict = [], calls = []\<rparr>"

definition host0 :: host where
  "host0 = \<lparr>str_of = (\<lambda>v. ''<object>''),
            inspect_signature = (\<lambda>v. Inl ValueError),
            doc_of = (\<lambda>v. None),
            dict_of = (\<lambda>v. []),
            getmro = (\<lambda>v. [v]),
            name_of = (\<lambda>v. case v of PClass n \<Rightarrow> n | PModule n \<Rightarrow> n | _ \<Rightarrow> []),
            getmembers = (\<lambda>v. []),
            has_func = (\<lambda>v. False),
            has_fset = (\<lambda>v. False),
            setattr_ok = (\<lambda>v. True)\<rparr>"

text \<open>A callable that returns \<open>v\<close> whatever it is given.\<close>

definition fn_const :: "nat \<Rightarrow> pyval \<Rightarrow> callable" where
  "fn_const i v = \<lparr>cid = i, run = (\<lambda>args kwargs w. (Inr v, w))\<rparr>"

text \<open>The mapping \<^verbatim>\<open>{'do_not_really_call': True, 'return_value': 42}\<close>.\<close>

definition suppress_call :: pyval where
  "suppress_call = PDict [(PStr ''do_not_really_call'', PBool True), (PStr ''return_value'', PInt 42)]"

text \<open>
  \<^verbatim>\<open>MyClass.my_instance_property\<close> of the source: the getter returns
  \<^verbatim>\<open>self.instance_var\<close>, the setter assigns it.
\<close>

definition fget_instance_var :: callable where
  "fget_instance_var = \<lparr>cid = 20, run = (\<lambda>args kwargs w.
      case args of
        [self] \<Rightarrow> (case map_of (inst_dict w) (self, ''instance_var'') of
                     None \<Rightarrow> (Inl AttributeError, w)
                   | Some v \<Rightarrow> (Inr v, w))
      | _ \<Rightarrow> (Inl TypeError, w))\<rparr>"

definition fset_instance_var :: callable where
  "fset_instance_var = \<lparr>cid = 21, run = (\<lambda>args kwargs w.
      case args of
        [self, value] \<Rightarrow> (Inr PNone, set_dict w self ''instance_var'' value)
      | _ \<Rightarrow> (Inl TypeError, w))\<rparr>"

definition my_instance_property :: original_property where
  "my_instance_property = OrigProperty 5 (Some fget_instance_var) (Some fset_instance_var)"

text \<open>An instance of \<^verbatim>\<open>MyClass\<close> after \<^verbatim>\<open>__init__\<close>: \<^verbatim>\<open>instance_var\<close> is 10.\<close>

definition world_obj :: world where
  "world_obj = \<lparr>suspend_trace = False,
                inst_dict = [((PObject 1, ''instance_var''), PInt 10)], calls = []\<rparr>"

text \<open>The mapping \<^verbatim>\<open>{'do_not_really_set': True}\<close>.\<close>

definition veto_set :: pyval where
  "veto_set = PDict [(PStr ''do_not_really_set'', PBool True)]"



text \<open>
  An object model to run the classification on. \<^verbatim>\<open>MyClass\<close> and \<^verbatim>\<open>BaseClass\<close> are the
  test classes of the source. \<^verbatim>\<open>Shape\<close> is
  \<^verbatim>\<open>
  class Shape:
      limit = 100
      _scale = 2
      flag = True
      unit = 1
      class Meta: pass
      def area(self): ...
      def scaled(factor, self): ...
  \<close>
  \<^verbatim>\<open>add\<close> is a built-in function without an inspectable signature whose docstring
  starts with its signature, and \<^verbatim>\<open>dict\<close> is the built-in class.
\<close>

definition demo_dict :: "pyval \<Rightarrow> (string \<times> descr) list" where
  "demo_dict obj =
     (if obj = PClass ''MyClass'' then
        [(''__init__'', DPlain (PFunction 1)), (''__repr__'', DPlain (PFunction 2)),
         (''class_method'', DClassMethod (PFunction 5)),
         (''class_method_with_self'', DClassMethod (PFunction 7)),
         (''class_method_without_self'', DClassMethod (PFunction 6)),
         (''class_value'', DPlain (PInt 100)), (''class_var'', DPlain (PInt 100)),
         (''instance_method'', DPlain (PFunction 8)),
         (''my_instance_property'', DProperty 5), (''my_method'', DPlain (PFunction 3)),
         (''other_class_value'', DPlain (PInt 666)),
         (''static_method'', DStaticMethod (PFunction 4))]
      else if obj = PClass ''BaseClass'' then
        [(''__init__'', DPlain (PFunction 11)), (''__repr__'', DPlain (PFunction 14)),
         (''__str__'', DPlain (PFunction 13)),
         (''base_class_method_with_self'', DClassMethod (PFunction 17)),
         (''base_class_method_without_self'', DClassMethod (PFunction 16)),
         (''base_class_var'', DPlain (PInt 41)),
         (''base_instance_method'', DPlain (PFunction 12)),
         (''base_method'', DPlain (PFunction 15)), (''base_property'', DProperty 18)]
      else if obj = PClass ''Shape'' then
        [(''Meta'', DPlain (PClass ''Meta'')), (''_scale'', DPlain (PInt 2)),
         (''area'', DPlain (PFunction 30)), (''flag'', DPlain (PBool True)),
         (''limit'', DPlain (PInt 100)), (''scaled'', DPlain (PFunction 32)),
         (''unit'', DPlain (PInt 1))]
      else if obj = PClass ''object'' then
        [(''__class__'', DPlain (PObject 90)), (''__doc__'', DPlain (PStr ''The base class'')),
         (''__init__'', DPlain (PCallable 100)), (''__repr__'', DPlain (PCallable 101)),
         (''__str__'', DPlain (PCallable 102))]
      else [])"

definition demo_mro :: "pyval \<Rightarrow> pyval list" where
  "demo_mro obj =
     (if obj = PClass ''MyClass'' then [PClass ''MyClass'', PClass ''BaseClass'', PClass ''object'']
      else if obj = PClass ''BaseClass'' then [PClass ''BaseClass'', PClass ''object'']
      else if obj = PClass ''Shape'' then [PClass ''Shape'', PClass ''object'']
      else [obj])"

definition demo_members :: "pyval \<Rightarrow> (string \<times> pyval) list" where
  "demo_members obj =
     (if obj = PClass ''MyClass'' then
        [(''__class__'', PClass ''type''), (''__doc__'', PNone),
         (''__init__'', PFunction 1), (''__repr__'', PFunction 2), (''__str__'', PFunction 13),
         (''base_class_method_with_self'', PMethod 17),
         (''base_class_method_without_self'', PMethod 16),
         (''base_class_var'', PInt 41), (''base_instance_method'', PFunction 12),
         (''base_method'', PFunction 15), (''base_property'', PProperty 18),
         (''class_method'', PMethod 5), (''class_method_with_self'', PMethod 7),
         (''class_method_without_self'', PMethod 6),
         (''class_value'', PInt 100), (''class_var'', PInt 100),
         (''instance_method'', PFunction 8), (''my_instance_property'', PProperty 5),
         (''my_method'', PFunction 3), (''other_class_value'', PInt 666),
         (''static_method'', PFunction 4)]
      else if obj = PClass ''Shape'' then
        [(''Meta'', PClass ''Meta''), (''__class__'', PClass ''type''),
         (''__doc__'', PNone), (''__init__'', PCallable 100),
         (''_scale'', PInt 2), (''area'', PFunction 30), (''flag'', PBool True),
         (''limit'', PInt 100), (''scaled'', PFunction 32), (''unit'', PInt 1)]
      else [])"

definition demo_signature :: "pyval \<Rightarrow> string list result" where
  "demo_signature v =
     (if v = PFunction 1 then Inr [''self'', ''value'']
      else if v \<in> {PFunction 2, PFunction 8, PFunction 12, PFunction 13, PFunction 30,
                    PMethod 7, PMethod 17} then Inr [''self'']
      else if v \<in> {PFunction 3, PFunction 15} then Inr [''self'', ''x'']
      else if v = PFunction 4 then Inr [''y'']
      else if v = PMethod 5 then Inr [''z'']
      else if v \<in> {PMethod 6, PMethod 16} then Inr []
      else if v = PFunction 32 then Inr [''factor'', ''self'']
      else if v = PCallable 100 then Inr [''self'', ''args'', ''kwargs'']
      else Inl ValueError)"

definition demo_doc :: "pyval \<Rightarrow> string option" where
  "demo_doc v =
     (if v = PBuiltin 1
      then Some (''  add(a: int, b: int) -> int '' @ [CHR 0x0A] @ ''Add two numbers.'')
      else if v = PClass ''dict'' then Some ''dict() -> new empty dictionary''
      else None)"

definition host_demo :: host where
  "host_demo = \<lparr>str_of = (\<lambda>v. ''<object>''),
                inspect_signature = demo_signature,
                doc_of = demo_doc,
                dict_of = demo_dict,
                getmro = demo_mro,
                name_of = (\<lambda>v. case v of PClass n \<Rightarrow> n | PModule n \<Rightarrow> n | _ \<Rightarrow> []),
                getmembers = demo_members,
                has_func = (\<lambda>v. case v of PMethod i \<Rightarrow> True | _ \<Rightarrow> False),
                has_fset = (\<lambda>v. v = PProperty 5),
                setattr_ok = (\<lambda>v. v \<noteq> PClass ''object'')\<rparr>"





section \<open>Properties of the Observer\<close>

lemma kwargs_get_filter:
  "k \<noteq> k' \<Longrightarrow> kwargs_get (filter (\<lambda>(x, v). x \<noteq> k') kwargs) k d = kwargs_get kwargs k d"
  by (induction kwargs) (auto simp: kwargs_get_def)

lemma run_callbacks_quiet_prefix:
  "quiet_run pre args w = Some w1 \<Longrightarrow>
   run_callbacks (pre @ rest) args w = run_callbacks rest args w1"
  by (induction pre arbitrary: w) (auto split: prod.splits sum.splits if_splits)

lemma run_callbacks_quiet:
  "quiet_run cbs args w = Some w1 \<Longrightarrow> run_callbacks cbs args w = (Inr None, w1)"
  using run_callbacks_quiet_prefix [of cbs args w w1 "[]"] by simp

lemma registered_subscribe:
  "registered (subscribe obs ev cb lvl) key =
     (if key = event_key lvl ev then registered obs key @ [cb] else registered obs key)"
  by (auto simp: subscribe_def registered_def Let_def split: option.splits)

lemma registered_subscribe_all:
  "registered (subscribe_all obs ev lvl news) (event_key lvl ev) =
     registered obs (event_key lvl ev) @ news"
  unfolding subscribe_all_def
  by (induction news arbitrary: obs) (simp_all add: registered_subscribe)

lemma registered_init: "registered Observer_init key = []"
  by (simp add: registered_def Observer_init_def)

lemma registered_nonempty:
  "registered obs key = c # cs \<Longrightarrow> observers obs key = Some (c # cs)"
  by (auto simp: registered_def split: option.splits)

lemma dispatch_registered:
  "dispatch obs key args d w =
     (case run_callbacks (registered obs key) args w of
        (Inl e, w') \<Rightarrow> (Inl e, w')
      | (Inr (Some result), w') \<Rightarrow> (Inr result, w')
      | (Inr None, w') \<Rightarrow> (Inr d, w'))"
  by (auto simp: dispatch_def registered_def split: option.splits)

lemma notify_live:
  "\<not> suspend_trace w \<Longrightarrow> \<not> skipped_name h (a0 # rest) \<Longrightarrow>
   notify h obs func ev (a0 # rest) kwargs w =
     dispatch obs (event_key (py_str h (kwargs_get kwargs ''level'' (PStr ''instance''))) ev)
       ((if ismodule a0 then PNone else a0) # rest)
       (kwargs_get kwargs ''default_value'' PNone) w"
  by (simp add: notify_def Let_def kwargs_get_filter)

section \<open>Properties of the wrappers\<close>

lemmas eval_defs = notify_def dispatch_def subscribe_def registered_def Observer_init_def
  event_key_def kwargs_get_def py_str_def skipped_name_def skip_substrings_def ismodule_def
  py_call_def dict_flag_def dict_get_def dict_entry_def py_truthy_def Let_def

lemma notify_first_hit:
  assumes "\<not> suspend_trace w" and "\<not> skipped_name h (a0 # rest)"
    and "registered obs (event_key level event_type) = pre @ c # post"
    and "quiet_run pre ((if ismodule a0 then PNone else a0) # rest) w = Some w1"
    and "py_call c ((if ismodule a0 then PNone else a0) # rest) [] w1 = (Inr r, w2)"
    and "r \<noteq> PNone"
  shows "notify h obs func event_type (a0 # rest) [(''level'', PStr level)] w = (Inr r, w2)"
proof -
  have "run_callbacks (pre @ c # post) ((if ismodule a0 then PNone else a0) # rest) w
          = run_callbacks (c # post) ((if ismodule a0 then PNone else a0) # rest) w1"
    using assms(4) by (rule run_callbacks_quiet_prefix)
  also have "\<dots> = (Inr (Some r), w2)"
    using assms(5,6) by simp
  finally show ?thesis
    using assms(1,2,3)
    by (simp add: notify_live dispatch_registered kwargs_get_def py_str_def)
qed

lemma wrapped_call_suppressed:
  assumes "notify h obs (ref_of original) ''before_call''
             [owner, PStr name, PTuple args, kwargs_dict kwargs] [(''level'', PStr level)] w
           = (Inr result, w1)"
    and "dict_flag result ''do_not_really_call''"
  shows "wrapped_call h obs level original owner name implicit args kwargs w
           = (Inr (dict_entry result ''return_value''), w1)"
  using assms by (simp add: wrapped_call_def)

section \<open>Properties of signatures and classification\<close>

lemmas host_demo_defs = host_demo_def demo_signature_def demo_doc_def demo_dict_def demo_mro_def
  demo_members_def

lemma first_line_add:
  "first_line (''  add(a: int, b: int) -> int '' @ [CHR 0x0A] @ ''Add two numbers.'')
     = ''  add(a: int, b: int) -> int ''"
  by (simp add: first_line_def is_linebreak_def)

lemma strip_add: "strip ''  add(a: int, b: int) -> int '' = ''add(a: int, b: int) -> int''"
  by (simp add: strip_def py_isspace_def)

section \<open>Properties of the Inspector\<close>


lemma make_member_info_sel [simp]:
  "mi_name (make_member_info h obj name member b) = name"
  "mi_member (make_member_info h obj name member b) = member"
  by (simp_all add: make_member_info_def Let_def)







section \<open>Properties of patching\<close>






lemma wrapped_keys_patched [simp]:
  "wrapped_keys (insp\<lparr>patched_members := pm\<rparr>) = wrapped_keys insp"
  by (simp add: wrapped_keys_def)

























text \<open>
  Claim C1. Subscribing appends to the list kept under the key, so the list is in
  subscription order. When \<open>notify\<close> dispatches (reentrancy flag clear, member name not
  on the skip list, payload not empty), the callbacks of the list are invoked from its front:
  if every callback before \<open>c\<close> returns \<^verbatim>\<open>None\<close> and \<open>c\<close> returns a value other than
  \<^verbatim>\<open>None\<close>, that value is the result of \<open>notify\<close> and the state is the one \<open>c\<close> left:
  whatever is subscribed after \<open>c\<close> is not invoked.
\<close>

theorem notify_first_non_null_wins:
  assumes "\<not> suspend_trace w" and "\<not> skipped_name h (a0 # rest)"
    and "py_str h (kwargs_get kwargs ''level'' (PStr ''instance'')) = level"
    and "registered obs (event_key level event_type) @ news = pre @ c # post"
    and "args1 = (if ismodule a0 then PNone else a0) # rest"
    and "quiet_run pre args1 w = Some w1"
    and "py_call c args1 [] w1 = (Inr r, w2)" and "r \<noteq> PNone"
  shows "notify h (subscribe_all obs event_type level news) func event_type (a0 # rest) kwargs w
           = (Inr r, w2)"
proof -
  let ?obs = "subscribe_all obs event_type level news"
  have reg: "registered ?obs (event_key level event_type) = pre @ c # post"
    using assms(4) by (simp add: registered_subscribe_all)
  have "run_callbacks (pre @ c # post) args1 w = run_callbacks (c # post) args1 w1"
    using assms(6) by (rule run_callbacks_quiet_prefix)
  also have "\<dots> = (Inr (Some r), w2)"
    using assms(7,8) by simp
  finally have "dispatch ?obs (event_key level event_type) args1
                  (kwargs_get kwargs ''default_value'' PNone) w = (Inr r, w2)"
    by (simp add: dispatch_registered reg)
  then show ?thesis
    using assms(1,2,3,5) by (simp add: notify_live)
qed

text \<open>
  Three callbacks subscribed in the order 1, 2, 3; the first returns \<^verbatim>\<open>None\<close>, the second
  5, the third 9: the result is 5 and the log of invocations is \<open>[1, 2]\<close>.
\<close>

theorem notify_first_non_null_wins_witness:
  "\<not> suspend_trace world0 \<and> \<not> skipped_name host0 [PClass ''MyClass'', PStr ''area'']
   \<and> py_str host0 (kwargs_get [(''level'', PStr ''instance'')] ''level'' (PStr ''instance'')) = ''instance''
   \<and> registered Observer_init (event_key ''instance'' ''get'')
        @ [cb_const 1 PNone, cb_const 2 (PInt 5), cb_const 3 (PInt 9)]
       = [cb_const 1 PNone] @ cb_const 2 (PInt 5) # [cb_const 3 (PInt 9)]
   \<and> quiet_run [cb_const 1 PNone] [PClass ''MyClass'', PStr ''area''] world0
       = Some (world0\<lparr>calls := [1]\<rparr>)
   \<and> py_call (cb_const 2 (PInt 5)) [PClass ''MyClass'', PStr ''area''] [] (world0\<lparr>calls := [1]\<rparr>)
       = (Inr (PInt 5), world0\<lparr>calls := [1, 2]\<rparr>)
   \<and> PInt 5 \<noteq> PNone
   \<and> notify host0
        (subscribe_all Observer_init ''get'' ''instance''
           [cb_const 1 PNone, cb_const 2 (PInt 5), cb_const 3 (PInt 9)])
        PNone ''get'' [PClass ''MyClass'', PStr ''area''] [(''level'', PStr ''instance'')] world0
       = (Inr (PInt 5), world0\<lparr>calls := [1, 2]\<rparr>)"
proof -
  have h1: "\<not> suspend_trace world0" by (simp add: world0_def)
  have h2: "\<not> skipped_name host0 [PClass ''MyClass'', PStr ''area'']"
    by (simp add: skipped_name_def skip_substrings_def py_str_def)
  have h3: "py_str host0 (kwargs_get [(''level'', PStr ''instance'')] ''level'' (PStr ''instance'')) = ''instance''"
    by (simp add: py_str_def kwargs_get_def)
  have h4: "registered Observer_init (event_key ''instance'' ''get'')
        @ [cb_const 1 PNone, cb_const 2 (PInt 5), cb_const 3 (PInt 9)]
       = [cb_const 1 PNone] @ cb_const 2 (PInt 5) # [cb_const 3 (PInt 9)]"
    by (simp add: registered_init)
  have h5: "[PClass ''MyClass'', PStr ''area''] = (if ismodule (PClass ''MyClass'') then PNone else PClass ''MyClass'') # [PStr ''area'']"
    by (simp add: ismodule_def)
  have h6: "quiet_run [cb_const 1 PNone] [PClass ''MyClass'', PStr ''area''] world0
       = Some (world0\<lparr>calls := [1]\<rparr>)"
    by (simp add: py_call_def cb_const_def world0_def)
  have h7: "py_call (cb_const 2 (PInt 5)) [PClass ''MyClass'', PStr ''area''] [] (world0\<lparr>calls := [1]\<rparr>)
       = (Inr (PInt 5), world0\<lparr>calls := [1, 2]\<rparr>)"
    by (simp add: py_call_def cb_const_def world0_def)
  have h8: "PInt 5 \<noteq> PNone" by simp
  show ?thesis
    using h1 h2 h3 h4 h6 h7 h8 notify_first_non_null_wins [OF h1 h2 h3 h4 h5 h6 h7 h8]
    by blast
qed

text \<open>
  Claim C8, as stated, at a concrete call: the reentrancy flag is set, no callback is
  subscribed at all, the caller supplies the default 7, and \<open>notify\<close> returns
  \<^verbatim>\<open>None\<close>.
\<close>

theorem notify_suspended_ignores_default:
  "notify host0 Observer_init PNone ''get'' [PClass ''MyClass'', PStr ''area'']
     [(''default_value'', PInt 7)] (world0\<lparr>suspend_trace := True\<rparr>)
   = (Inr PNone, world0\<lparr>suspend_trace := True\<rparr>) \<and> PNone \<noteq> PInt 7"
  by (simp add: notify_def)

text \<open>
  Claim C8, amended. When the reentrancy flag is clear, the payload is not empty, the
  member name is not on the skip list, and every callback registered under the key (none,
  if the key is absent) returns \<^verbatim>\<open>None\<close>, \<open>notify\<close> returns the caller's
  \<^verbatim>\<open>default_value\<close> (\<^verbatim>\<open>None\<close> when the caller gave none).
\<close>

theorem notify_returns_default:
  assumes "\<not> suspend_trace w" and "\<not> skipped_name h (a0 # rest)"
    and "quiet_run
           (registered obs
              (event_key (py_str h (kwargs_get kwargs ''level'' (PStr ''instance''))) event_type))
           ((if ismodule a0 then PNone else a0) # rest) w = Some w1"
  shows "notify h obs func event_type (a0 # rest) kwargs w
           = (Inr (kwargs_get kwargs ''default_value'' PNone), w1)"
  using assms by (simp add: notify_live dispatch_registered run_callbacks_quiet)

theorem notify_returns_default_witness:
  "\<not> suspend_trace world0 \<and> \<not> skipped_name host0 [PModule ''hyperonpy'', PStr ''area'']
   \<and> quiet_run
        (registered (subscribe Observer_init ''get'' (cb_const 1 PNone) ''module'')
          (event_key (py_str host0 (kwargs_get [(''level'', PStr ''module''), (''default_value'', PInt 7)] ''level'' (PStr ''instance''))) ''get''))
        ((if ismodule (PModule ''hyperonpy'') then PNone else PModule ''hyperonpy'') # [PStr ''area'']) world0
       = Some (world0\<lparr>calls := [1]\<rparr>)
   \<and> notify host0 (subscribe Observer_init ''get'' (cb_const 1 PNone) ''module'') PNone ''get''
        [PModule ''hyperonpy'', PStr ''area''] [(''level'', PStr ''module''), (''default_value'', PInt 7)] world0
       = (Inr (PInt 7), world0\<lparr>calls := [1]\<rparr>)"
proof -
  have h1: "\<not> suspend_trace world0" by (simp add: world0_def)
  have h2: "\<not> skipped_name host0 [PModule ''hyperonpy'', PStr ''area'']"
    by (simp add: skipped_name_def skip_substrings_def py_str_def)
  have h3: "quiet_run
        (registered (subscribe Observer_init ''get'' (cb_const 1 PNone) ''module'')
          (event_key (py_str host0 (kwargs_get [(''level'', PStr ''module''), (''default_value'', PInt 7)] ''level'' (PStr ''instance''))) ''get''))
        ((if ismodule (PModule ''hyperonpy'') then PNone else PModule ''hyperonpy'') # [PStr ''area'']) world0
       = Some (world0\<lparr>calls := [1]\<rparr>)"
    by (simp add: registered_subscribe registered_init py_str_def kwargs_get_def
        ismodule_def py_call_def cb_const_def world0_def)
  show ?thesis
    using h1 h2 h3 notify_returns_default [OF h1 h2 h3, of PNone]
    by (simp add: kwargs_get_def)
qed

text \<open>
  Claim C10. With the reentrancy flag clear and no positional argument after the
  event type, \<open>notify\<close> raises IndexError at \<^verbatim>\<open>args_list[0]\<close>: the skip-list test is
  guarded by \<^verbatim>\<open>len(args_list) > 1\<close> and does not return first. No callback is invoked
  and the default value is not returned.
\<close>

theorem notify_empty_payload_IndexError:
  "\<not> suspend_trace w \<Longrightarrow> notify h obs func event_type [] kwargs w = (Inl IndexError, w)"
  by (simp add: notify_def skipped_name_def Let_def)

theorem notify_empty_payload_IndexError_witness:
  "\<not> suspend_trace world0 \<and>
   notify host0 (subscribe Observer_init ''get'' (cb_const 1 (PInt 5)) ''instance'') PNone ''get'' []
     [(''default_value'', PInt 7)] world0 = (Inl IndexError, world0)"
  using notify_empty_payload_IndexError [of world0 host0 "subscribe Observer_init ''get'' (cb_const 1 (PInt 5)) ''instance''" PNone "''get''" "[(''default_value'', PInt 7)]"]
  by (simp add: world0_def)

text \<open>
  Claim C3. For each of the four call wrappers, under the level it notifies with
  (\<^verbatim>\<open>instance\<close> for instance methods, \<^verbatim>\<open>class\<close> for class and static methods,
  \<^verbatim>\<open>module\<close> for module functions): if a callback \<open>c\<close> subscribed under
  (level, \<^verbatim>\<open>before_call\<close>) is reached (the callbacks subscribed before it returned
  \<^verbatim>\<open>None\<close>) and returns a dict whose \<^verbatim>\<open>do_not_really_call\<close> entry is truthy, the wrapper
  returns the dict's \<^verbatim>\<open>return_value\<close> entry in the very state \<open>c\<close> left. This holds
  for every \<open>original\<close>: the original callable is not invoked.
\<close>

theorem suppress_call_skips_original:
  assumes "\<not> suspend_trace w"
    and "\<not> skipped_name h [owner, PStr name, PTuple args, kwargs_dict kwargs]"
    and "registered obs (event_key level ''before_call'') = pre @ c # post"
    and "quiet_run pre (before_args owner name args kwargs) w = Some w1"
    and "py_call c (before_args owner name args kwargs) [] w1 = (Inr result, w2)"
    and "dict_flag result ''do_not_really_call''"
  shows "(level = ''instance'' \<longrightarrow>
            patched_method h obs original owner name instance_self args kwargs w
              = (Inr (dict_entry result ''return_value''), w2))
       \<and> (level = ''class'' \<longrightarrow>
            patched_class_method h obs original owner name cls args kwargs w
              = (Inr (dict_entry result ''return_value''), w2)
          \<and> patched_static_method h obs original owner name args kwargs w
              = (Inr (dict_entry result ''return_value''), w2))
       \<and> (level = ''module'' \<longrightarrow>
            patched_function h obs original owner name args kwargs w
              = (Inr (dict_entry result ''return_value''), w2))"
proof -
  have nn: "result \<noteq> PNone"
    using assms(6) by (auto simp: dict_flag_def)
  have "notify h obs (ref_of original) ''before_call''
          [owner, PStr name, PTuple args, kwargs_dict kwargs] [(''level'', PStr level)] w
        = (Inr result, w2)"
    using assms(1,2,3) assms(4,5) [unfolded before_args_def] nn
    by (rule notify_first_hit)
  then have "wrapped_call h obs level original owner name implicit args kwargs w
               = (Inr (dict_entry result ''return_value''), w2)" for implicit
    using assms(6) by (rule wrapped_call_suppressed)
  then show ?thesis
    unfolding patched_method_def patched_class_method_def patched_static_method_def
      patched_function_def
    by blast
qed

text \<open>
  A suppressing subscriber (identity 1) in front of an original (identity 9) that would
  return 7: the patched method returns 42 and the log of invocations is \<open>[1]\<close>.
\<close>

theorem suppress_call_skips_original_witness:
  "\<not> suspend_trace world0
   \<and> \<not> skipped_name host0 [PClass ''Shape'', PStr ''area'', PTuple [], kwargs_dict []]
   \<and> registered (subscribe Observer_init ''before_call'' (cb_const 1 suppress_call) ''instance'')
         (event_key ''instance'' ''before_call'') = [] @ cb_const 1 suppress_call # []
   \<and> quiet_run [] (before_args (PClass ''Shape'') ''area'' [] []) world0 = Some world0
   \<and> py_call (cb_const 1 suppress_call) (before_args (PClass ''Shape'') ''area'' [] []) [] world0
         = (Inr suppress_call, world0\<lparr>calls := [1]\<rparr>)
   \<and> dict_flag suppress_call ''do_not_really_call''
   \<and> patched_method host0
         (subscribe Observer_init ''before_call'' (cb_const 1 suppress_call) ''instance'')
         (fn_const 9 (PInt 7)) (PClass ''Shape'') ''area'' (PObject 1) [] [] world0
         = (Inr (PInt 42), world0\<lparr>calls := [1]\<rparr>)"
proof -
  let ?obs = "subscribe Observer_init ''before_call'' (cb_const 1 suppress_call) ''instance''"
  have h1: "\<not> suspend_trace world0" by (simp add: world0_def)
  have h2: "\<not> skipped_name host0 [PClass ''Shape'', PStr ''area'', PTuple [], kwargs_dict []]"
    by (simp add: skipped_name_def skip_substrings_def py_str_def)
  have h3: "registered ?obs (event_key ''instance'' ''before_call'')
              = [] @ cb_const 1 suppress_call # []"
    by (simp add: registered_subscribe registered_init)
  have h4: "quiet_run [] (before_args (PClass ''Shape'') ''area'' [] []) world0 = Some world0"
    by simp
  have h5: "py_call (cb_const 1 suppress_call) (before_args (PClass ''Shape'') ''area'' [] []) []
              world0 = (Inr suppress_call, world0\<lparr>calls := [1]\<rparr>)"
    by (simp add: py_call_def cb_const_def world0_def)
  have h6: "dict_flag suppress_call ''do_not_really_call''"
    by (simp add: dict_flag_def suppress_call_def dict_get_def py_truthy_def)
  have h7: "dict_entry suppress_call ''return_value'' = PInt 42"
    by (simp add: dict_entry_def suppress_call_def dict_get_def)
  show ?thesis
    using h1 h2 h3 h4 h5 h6 h7
      suppress_call_skips_original [OF h1 h2 h3 h4 h5 h6, of "fn_const 9 (PInt 7)" "PObject 1"]
    by simp
qed




text \<open>
  Claim C5 on the code. \<^verbatim>\<open>my_instance_property\<close> is patched and a \<^verbatim>\<open>set\<close> subscriber
  (identity 2) that returns \<^verbatim>\<open>{'do_not_really_set': True}\<close> is subscribed at the instance
  level. Assigning 200 runs the original setter (21) and never the subscriber, because the
  setter has raised the flag before it calls \<open>notify\<close>; the following read returns 200, not
  the 10 stored before. For a patched instance variable, a read with no subscriber returns
  \<^verbatim>\<open>None\<close> in place of the stored 10, and an assignment raises AttributeError.
\<close>

theorem instance_setter_ignores_veto:
  "patched_write host0 (subscribe Observer_init ''set'' (cb_const 2 veto_set) ''instance'')
     my_instance_property ''my_instance_property'' (PClass ''MyClass'') ''instance''
     (PObject 1) (PInt 200) world_obj
   = (Inr PNone,
      world_obj\<lparr>inst_dict := [((PObject 1, ''instance_var''), PInt 200)], calls := [21]\<rparr>)
   \<and> patched_read host0 (subscribe Observer_init ''set'' (cb_const 2 veto_set) ''instance'')
     my_instance_property ''my_instance_property'' (PClass ''MyClass'') ''instance'' (PObject 1)
     (world_obj\<lparr>inst_dict := [((PObject 1, ''instance_var''), PInt 200)], calls := [21]\<rparr>)
   = (Inr (PInt 200),
      world_obj\<lparr>inst_dict := [((PObject 1, ''instance_var''), PInt 200)], calls := [21, 20]\<rparr>)
   \<and> patched_read host0 Observer_init (OrigValue (PInt 10)) ''instance_var'' (PClass ''MyClass'')
     ''instance'' (PObject 1) world_obj = (Inr PNone, world_obj)
   \<and> patched_write host0 Observer_init (OrigValue (PInt 10)) ''instance_var'' (PClass ''MyClass'')
     ''instance'' (PObject 1) (PInt 200) world_obj = (Inl AttributeError, world_obj)"
  by (simp add: patched_write_def patched_read_def has_setter_def my_instance_property_def
      instance_setter_def instance_getter_def raw_write_def raw_read_def world_obj_def
      fset_instance_var_def fget_instance_var_def set_dict_def getattr_default_def eval_defs)

text \<open>
  Claim C9, as stated, at a concrete callable: the built-in class \<^verbatim>\<open>dict\<close> has no
  inspectable signature and its docstring opens with \<^verbatim>\<open>dict() -> new empty dictionary\<close>;
  \<open>signature\<close> does not look at the docstring, because \<^verbatim>\<open>dict\<close> is not a built-in
  function object, and returns \<^verbatim>\<open>(builtin method)\<close>.
\<close>

theorem signature_skips_doc_of_class:
  "inspect_signature host_demo (PClass ''dict'') = Inl ValueError
   \<and> doc_of host_demo (PClass ''dict'') = Some ''dict() -> new empty dictionary''
   \<and> signature host_demo (PClass ''dict'') = Inr (SigText ''(builtin method)'')"
  by (simp add: signature_def is_pybind11_function_def isbuiltin_def host_demo_defs)

text \<open>
  Claim C9, amended. \<open>signature\<close> never raises. When introspection succeeds it returns
  the signature. When introspection raises ValueError or TypeError and the callable is a
  built-in function object, it turns to the docstring: if the docstring is not empty and
  its first line contains both parentheses, the result is that first line, stripped;
  otherwise the string \<^verbatim>\<open>(pybind11 function with unknown signature)\<close>. For any other
  callable the result is \<^verbatim>\<open>(builtin method)\<close>, and for any other exception
  \<^verbatim>\<open>(unknown)\<close>.
\<close>

theorem signature_never_raises:
  "(\<exists>r. signature h obj = Inr r)
   \<and> (inspect_signature h obj = Inr params \<longrightarrow> signature h obj = Inr (Signature params))
   \<and> (inspect_signature h obj = Inl e \<and> (e = ValueError \<or> e = TypeError) \<and> isbuiltin obj
        \<and> doc_of h obj = Some doc \<and> doc \<noteq> []
        \<and> CHR ''('' \<in> set (first_line doc) \<and> CHR '')'' \<in> set (first_line doc)
      \<longrightarrow> signature h obj = Inr (SigText (strip (first_line doc))))
   \<and> (inspect_signature h obj = Inl e \<and> (e = ValueError \<or> e = TypeError) \<and> isbuiltin obj
        \<and> (doc_of h obj = None
            \<or> doc_of h obj = Some doc
               \<and> (doc = [] \<or> CHR ''('' \<notin> set (first_line doc) \<or> CHR '')'' \<notin> set (first_line doc)))
      \<longrightarrow> signature h obj = Inr (SigText ''(pybind11 function with unknown signature)''))
   \<and> (inspect_signature h obj = Inl e \<and> (e = ValueError \<or> e = TypeError) \<and> \<not> isbuiltin obj
      \<longrightarrow> signature h obj = Inr (SigText ''(builtin method)''))
   \<and> (inspect_signature h obj = Inl e \<and> e \<noteq> ValueError \<and> e \<noteq> TypeError
      \<longrightarrow> signature h obj = Inr (SigText ''(unknown)''))"
  by (auto simp: signature_def is_pybind11_function_def get_pybind11_signature_def
      split: sum.splits option.splits)

theorem signature_never_raises_witness:
  "inspect_signature host_demo (PBuiltin 1) = Inl ValueError \<and> isbuiltin (PBuiltin 1)
   \<and> doc_of host_demo (PBuiltin 1)
       = Some (''  add(a: int, b: int) -> int '' @ [CHR 0x0A] @ ''Add two numbers.'')
   \<and> signature host_demo (PBuiltin 1) = Inr (SigText ''add(a: int, b: int) -> int'')
   \<and> inspect_signature host_demo (PBuiltin 2) = Inl ValueError \<and> isbuiltin (PBuiltin 2)
   \<and> doc_of host_demo (PBuiltin 2) = None
   \<and> signature host_demo (PBuiltin 2) = Inr (SigText ''(pybind11 function with unknown signature)'')
   \<and> inspect_signature host_demo (PFunction 1) = Inr [''self'', ''value'']
   \<and> signature host_demo (PFunction 1) = Inr (Signature [''self'', ''value''])
   \<and> inspect_signature host_demo (PCallable 101) = Inl ValueError \<and> \<not> isbuiltin (PCallable 101)
   \<and> signature host_demo (PCallable 101) = Inr (SigText ''(builtin method)'')
   \<and> inspect_signature (host_demo\<lparr>inspect_signature := (\<lambda>v. Inl (OtherError ''boom''))\<rparr>) (PBuiltin 1)
       = Inl (OtherError ''boom'')
   \<and> signature (host_demo\<lparr>inspect_signature := (\<lambda>v. Inl (OtherError ''boom''))\<rparr>) (PBuiltin 1)
       = Inr (SigText ''(unknown)'')"
proof -
  let ?doc = "''  add(a: int, b: int) -> int '' @ [CHR 0x0A] @ ''Add two numbers.''"
  have a1: "inspect_signature host_demo (PBuiltin 1) = Inl ValueError"
    by (simp add: host_demo_defs)
  have a2: "isbuiltin (PBuiltin 1)" by (simp add: isbuiltin_def)
  have a3: "doc_of host_demo (PBuiltin 1) = Some ?doc" by (simp add: host_demo_defs)
  have a4: "?doc \<noteq> [] \<and> CHR ''('' \<in> set (first_line ?doc) \<and> CHR '')'' \<in> set (first_line ?doc)"
    unfolding first_line_add by simp
  have b1: "inspect_signature host_demo (PBuiltin 2) = Inl ValueError"
    by (simp add: host_demo_defs)
  have b2: "isbuiltin (PBuiltin 2)" by (simp add: isbuiltin_def)
  have b3: "doc_of host_demo (PBuiltin 2) = None" by (simp add: host_demo_defs)
  have c1: "inspect_signature host_demo (PFunction 1) = Inr [''self'', ''value'']"
    by (simp add: host_demo_defs)
  have d1: "inspect_signature host_demo (PCallable 101) = Inl ValueError"
    by (simp add: host_demo_defs)
  have d2: "\<not> isbuiltin (PCallable 101)" by (simp add: isbuiltin_def)
  let ?h = "host_demo\<lparr>inspect_signature := (\<lambda>v. Inl (OtherError ''boom''))\<rparr>"
  have e1: "inspect_signature ?h (PBuiltin 1) = Inl (OtherError ''boom'')" by simp
  have r1: "signature host_demo (PBuiltin 1) = Inr (SigText (strip (first_line ?doc)))"
    using signature_never_raises [of host_demo "PBuiltin 1" "[]" ValueError ?doc] a1 a2 a3 a4
    by blast
  have r2: "signature host_demo (PBuiltin 2) = Inr (SigText ''(pybind11 function with unknown signature)'')"
    using signature_never_raises [of host_demo "PBuiltin 2" "[]" ValueError "[]"] b1 b2 b3
    by blast
  have r3: "signature host_demo (PFunction 1) = Inr (Signature [''self'', ''value''])"
    using signature_never_raises [of host_demo "PFunction 1" "[''self'', ''value'']" ValueError "[]"] c1
    by blast
  have r4: "signature host_demo (PCallable 101) = Inr (SigText ''(builtin method)'')"
    using signature_never_raises [of host_demo "PCallable 101" "[]" ValueError "[]"] d1 d2
    by blast
  have r5: "signature ?h (PBuiltin 1) = Inr (SigText ''(unknown)'')"
    using signature_never_raises [of ?h "PBuiltin 1" "[]" "OtherError ''boom''" "[]"] e1
    by blast
  show ?thesis
    using a1 a2 a3 b1 b2 b3 c1 d1 d2 e1 r1 r2 r3 r4 r5
    unfolding first_line_add strip_add by blast
qed

text \<open>
  Claim C7, as stated, at a concrete member: \<^verbatim>\<open>def scaled(factor, self)\<close> of class
  \<^verbatim>\<open>Shape\<close>. Its first declared parameter is \<^verbatim>\<open>factor\<close>, yet it is judged to declare
  self and classified Instance-scoped.
\<close>

theorem uses_self_second_parameter:
  "inspect_signature host_demo (PFunction 32) = Inr [''factor'', ''self'']
   \<and> uses_self host_demo (PFunction 32) = Inr True
   \<and> classify_member_level host_demo (PClass ''Shape'') ''scaled'' (PFunction 32)
        (implemented_in host_demo ''scaled'' (PClass ''Shape'')) True = INSTANCE"
  by (simp add: uses_self_def py_callable_def classify_member_level_def get_member_descriptor_def
      implemented_in_def in_dict_def isclass_def is_property_def is_staticmethod_def
      is_classmethod_def host_demo_defs)

text \<open>
  Claim C7, amended. A callable member is judged to declare self exactly when some
  parameter of its introspected signature is named \<^verbatim>\<open>self\<close>, and is judged not to when
  introspection raises ValueError or TypeError; \<open>uses_self\<close> sees the callable through
  \<open>inspect_signature\<close> only. In a class, a callable member whose descriptor is neither
  a property nor a staticmethod nor a classmethod is Instance-scoped exactly when it was
  judged to declare self; a property descriptor is always Instance-scoped, and a
  staticmethod or classmethod descriptor always Class-scoped, whatever the judgement.
\<close>

theorem uses_self_some_parameter:
  "(py_callable member \<and> inspect_signature h member = Inr params
      \<longrightarrow> uses_self h member = Inr (''self'' \<in> set params))
   \<and> (py_callable member \<and> inspect_signature h member = Inl e \<and> (e = ValueError \<or> e = TypeError)
      \<longrightarrow> uses_self h member = Inr False)
   \<and> (isclass obj \<and> py_callable member
        \<and> \<not> is_property (get_member_descriptor h obj name)
        \<and> \<not> is_staticmethod (get_member_descriptor h obj name)
        \<and> \<not> is_classmethod (get_member_descriptor h obj name)
      \<longrightarrow> (classify_member_level h obj name member implemented_from flag = INSTANCE \<longleftrightarrow> flag))
   \<and> (isclass obj \<and> is_property (get_member_descriptor h obj name)
      \<longrightarrow> classify_member_level h obj name member implemented_from flag = INSTANCE)
   \<and> (isclass obj \<and> \<not> is_property (get_member_descriptor h obj name)
        \<and> (is_staticmethod (get_member_descriptor h obj name)
            \<or> is_classmethod (get_member_descriptor h obj name))
      \<longrightarrow> classify_member_level h obj name member implemented_from flag = CLASS)"
  by (auto simp: uses_self_def classify_member_level_def Let_def)

theorem uses_self_some_parameter_witness:
  "py_callable (PFunction 30) \<and> inspect_signature host_demo (PFunction 30) = Inr [''self'']
   \<and> uses_self host_demo (PFunction 30) = Inr True
   \<and> py_callable (PFunction 4) \<and> inspect_signature host_demo (PFunction 4) = Inr [''y'']
   \<and> uses_self host_demo (PFunction 4) = Inr False
   \<and> py_callable (PClass ''type'') \<and> inspect_signature host_demo (PClass ''type'') = Inl ValueError
   \<and> uses_self host_demo (PClass ''type'') = Inr False
   \<and> isclass (PClass ''Shape'')
   \<and> get_member_descriptor host_demo (PClass ''Shape'') ''area'' = Some (DPlain (PFunction 30))
   \<and> classify_member_level host_demo (PClass ''Shape'') ''area'' (PFunction 30) (Some ''Shape'') True
       = INSTANCE
   \<and> classify_member_level host_demo (PClass ''Shape'') ''area'' (PFunction 30) (Some ''Shape'') False
       \<noteq> INSTANCE
   \<and> isclass (PClass ''MyClass'')
   \<and> get_member_descriptor host_demo (PClass ''MyClass'') ''my_instance_property'' = Some (DProperty 5)
   \<and> classify_member_level host_demo (PClass ''MyClass'') ''my_instance_property'' (PProperty 5)
        (Some ''MyClass'') False = INSTANCE
   \<and> get_member_descriptor host_demo (PClass ''MyClass'') ''class_method_with_self''
       = Some (DClassMethod (PFunction 7))
   \<and> classify_member_level host_demo (PClass ''MyClass'') ''class_method_with_self'' (PMethod 7)
        (Some ''MyClass'') True = CLASS"
proof -
  have c30: "py_callable (PFunction 30)" and c4: "py_callable (PFunction 4)"
    and ct: "py_callable (PClass ''type'')"
    by (simp_all add: py_callable_def)
  have s30: "inspect_signature host_demo (PFunction 30) = Inr [''self'']"
    and s4: "inspect_signature host_demo (PFunction 4) = Inr [''y'']"
    and st: "inspect_signature host_demo (PClass ''type'') = Inl ValueError"
    by (simp_all add: host_demo_defs)
  have k1: "isclass (PClass ''Shape'')" and k2: "isclass (PClass ''MyClass'')"
    by (simp_all add: isclass_def)
  have d1: "get_member_descriptor host_demo (PClass ''Shape'') ''area'' = Some (DPlain (PFunction 30))"
    and d2: "get_member_descriptor host_demo (PClass ''MyClass'') ''my_instance_property''
               = Some (DProperty 5)"
    and d3: "get_member_descriptor host_demo (PClass ''MyClass'') ''class_method_with_self''
               = Some (DClassMethod (PFunction 7))"
    by (simp_all add: get_member_descriptor_def in_dict_def isclass_def host_demo_defs)
  have n1: "\<not> is_property (Some (DPlain (PFunction 30)))
            \<and> \<not> is_staticmethod (Some (DPlain (PFunction 30)))
            \<and> \<not> is_classmethod (Some (DPlain (PFunction 30)))"
    by (simp add: is_property_def is_staticmethod_def is_classmethod_def)
  have n2: "is_property (Some (DProperty 5))" by (simp add: is_property_def)
  have n3: "\<not> is_property (Some (DClassMethod (PFunction 7)))
            \<and> is_classmethod (Some (DClassMethod (PFunction 7)))"
    by (simp add: is_property_def is_classmethod_def)
  have r1: "uses_self host_demo (PFunction 30) = Inr (''self'' \<in> set [''self''])"
    using uses_self_some_parameter [of "PFunction 30" host_demo "[''self'']"] c30 s30 by blast
  have r2: "uses_self host_demo (PFunction 4) = Inr (''self'' \<in> set [''y''])"
    using uses_self_some_parameter [of "PFunction 4" host_demo "[''y'']"] c4 s4 by blast
  have r3: "uses_self host_demo (PClass ''type'') = Inr False"
    using uses_self_some_parameter [of "PClass ''type''" host_demo _ ValueError] ct st by blast
  have r4: "classify_member_level host_demo (PClass ''Shape'') ''area'' (PFunction 30) (Some ''Shape'') True
              = INSTANCE"
    using uses_self_some_parameter [of "PFunction 30" host_demo _ _ "PClass ''Shape''" "''area''"
        "Some ''Shape''" True] k1 c30 n1 d1 by simp
  have r5: "classify_member_level host_demo (PClass ''Shape'') ''area'' (PFunction 30) (Some ''Shape'') False
              \<noteq> INSTANCE"
    using uses_self_some_parameter [of "PFunction 30" host_demo _ _ "PClass ''Shape''" "''area''"
        "Some ''Shape''" False] k1 c30 n1 d1 by simp
  have r6: "classify_member_level host_demo (PClass ''MyClass'') ''my_instance_property'' (PProperty 5)
        (Some ''MyClass'') False = INSTANCE"
    using uses_self_some_parameter [of "PProperty 5" host_demo _ _ "PClass ''MyClass''"
        "''my_instance_property''" "Some ''MyClass''" False] k2 n2 d2 by simp
  have r7: "classify_member_level host_demo (PClass ''MyClass'') ''class_method_with_self'' (PMethod 7)
        (Some ''MyClass'') True = CLASS"
    using uses_self_some_parameter [of "PMethod 7" host_demo _ _ "PClass ''MyClass''"
        "''class_method_with_self''" "Some ''MyClass''" True] k2 n3 d3 by simp
  show ?thesis
    using c30 c4 ct s30 s4 st k1 k2 d1 d2 d3 r1 r2 r3 r4 r5 r6 r7 by simp
qed







end

